theory Spec2Isabelle
  imports Main "HOL-Library.Word"
begin

section \<open>Data model of the InputTabs component\<close>

text \<open>
  The source file \<^verbatim>\<open>src/components/InputTabs.tsx\<close> holds a React function component whose
  state lives in seven \<^verbatim>\<open>useState\<close> cells, and, appended after it, the compiled form of the
  Python module \<^verbatim>\<open>api/services/summarizer.py\<close> (class \<^verbatim>\<open>SummarizerService\<close>).
  Both are embedded here: the component as a record of its state cells with one function
  per handler, the service as functions over an explicit logger.
\<close>

subsection \<open>JavaScript strings\<close>

text \<open>
  A JavaScript string is a sequence of UTF-16 code units. \<^verbatim>\<open>String.prototype.trim\<close>
  removes from both ends the code units that ECMAScript classes as WhiteSpace or
  LineTerminator.
\<close>

type_synonym js_string = "16 word list"

definition isWhiteSpace :: "16 word \<Rightarrow> bool" where
  "isWhiteSpace c \<longleftrightarrow>
     c \<in> set [0x0009, 0x000A, 0x000B, 0x000C, 0x000D, 0x0020, 0x00A0, 0x1680,
               0x2028, 0x2029, 0x202F, 0x205F, 0x3000, 0xFEFF]
     \<or> (0x2000 \<le> c \<and> c \<le> 0x200A)"

definition trim :: "js_string \<Rightarrow> js_string" where
  "trim s = rev (dropWhile isWhiteSpace (rev (dropWhile isWhiteSpace s)))"

subsection \<open>Interfaces (lines 4--42)\<close>

datatype tab = youtube | document

datatype result_section = summarize | viral | recommendation

record SummaryState =
  isLoading :: bool
  showSummary :: bool
  type :: "tab option"

record TimelineItem =
  timestamp :: string
  summary :: string

text \<open>
  The \<^verbatim>\<open>number\<close> fields of \<^verbatim>\<open>AnalysisData\<close> are carried as integers: the component
  only displays them, and no handler computes with them. Two field names occur twice in
  the source: \<^verbatim>\<open>summary\<close> of \<^verbatim>\<open>AnalysisData\<close> is \<open>data_summary\<close> here, and
  \<^verbatim>\<open>title\<close> of \<^verbatim>\<open>recommendations\<close> is \<open>rec_title\<close>.
\<close>

record video_metadata =
  title :: string
  duration :: int
  thumbnail_url :: string
  channel_name :: string
  view_count :: "int option"
  published_at :: "string option"

record suggested_structure =
  hook :: string
  introduction :: string
  main_content :: string
  call_to_action :: string

record recommendations =
  rec_title :: string
  target_audience :: string
  content_style :: string
  suggested_structure :: suggested_structure
  pro_tips :: "string list"
  estimated_viral_score :: int

record AnalysisData =
  video_metadata :: video_metadata
  data_summary :: string
  timeline_summary :: "TimelineItem list"
  viral_score :: int
  viral_label :: string
  viral_explanation :: string
  recommendations :: recommendations

subsection \<open>Component state (lines 45--55)\<close>

text \<open>
  The cell \<open>analysisData\<close> is read in two ways only: for its truth value (line 118) and,
  where that is true, for its fields. \<open>None\<close> is a falsy content of the cell: \<^verbatim>\<open>null\<close>, as
  written at mount and by \<open>handleBack\<close>, or a falsy response body.
\<close>

record controller =
  activeTab :: tab
  activeSection :: result_section
  summaryState :: SummaryState
  expandedTimeline :: "nat list"
  youtubeUrl :: js_string
  analysisData :: "AnalysisData option"
  error :: "string option"

definition initial :: controller where
  "initial = \<lparr> activeTab = youtube, activeSection = summarize,
     summaryState = \<lparr> isLoading = False, showSummary = False, type = None \<rparr>,
     expandedTimeline = [0], youtubeUrl = [], analysisData = None, error = None \<rparr>"

subsection \<open>The analysis request and its outcome\<close>

text \<open>
  \<^verbatim>\<open>fetch\<close> is called with a URL and an options object. The body is
  \<^verbatim>\<open>JSON.stringify\<close> of an object literal; the record keeps that object as its list of
  fields, in source order. The option \<^verbatim>\<open>method\<close> is the field \<open>http_method\<close>.
\<close>

record request =
  url :: string
  http_method :: string
  headers :: "(string \<times> string) list"
  body :: "(string \<times> js_string) list"

text \<open>
  What the awaited calls of \<^verbatim>\<open>handleSubmit\<close> can do: \<^verbatim>\<open>fetch\<close> rejects, or it resolves
  with a response of some status. \<^verbatim>\<open>response.json()\<close> then either rejects
  (\<open>Unparsable\<close>) or yields a value, which line 81 binds at type \<^verbatim>\<open>AnalysisData\<close>
  without looking at it. What the component can tell about that value is whether it is
  truthy (the test of line 118): \<open>Falsy\<close> is a body that parses to \<^verbatim>\<open>null\<close>, \<^verbatim>\<open>0\<close>,
  \<^verbatim>\<open>false\<close> or the empty string, \<open>Parsed\<close> a truthy one, taken at the declared type.
  \<^verbatim>\<open>response.ok\<close> is true exactly for the statuses 200 to 299.
\<close>

datatype json_body = Unparsable | Falsy | Parsed AnalysisData

datatype fetch_outcome = NetworkFailure | Response int json_body

definition ok :: "int \<Rightarrow> bool" where
  "ok status \<longleftrightarrow> 200 \<le> status \<and> status \<le> 299"

section \<open>Handlers\<close>

subsection \<open>handleSubmit (lines 57--89)\<close>

definition analyze_request :: "js_string \<Rightarrow> request" where
  "analyze_request u = \<lparr> url = ''http://localhost:8000/api/analyze'', http_method = ''POST'',
     headers = [(''Content-Type'', ''application/json'')],
     body = [(''youtube_url'', u)] \<rparr>"

text \<open>
  The synchronous part, up to the first \<^verbatim>\<open>await\<close>: the validation guard, then the two
  state writes and the call of \<^verbatim>\<open>fetch\<close>. The second component is the request handed to
  \<^verbatim>\<open>fetch\<close>, if any.
\<close>

definition handleSubmit_begin :: "controller \<Rightarrow> controller \<times> request option" where
  "handleSubmit_begin s =
     (if activeTab s = youtube \<and> trim (youtubeUrl s) = []
      then (s\<lparr> error := Some ''Please enter a YouTube URL'' \<rparr>, None)
      else (s\<lparr> error := None,
               summaryState := \<lparr> isLoading = True, showSummary = False,
                                  type = Some (activeTab s) \<rparr> \<rparr>,
            Some (analyze_request (youtubeUrl s))))"

definition catch_block :: "controller \<Rightarrow> controller" where
  "catch_block s =
     s\<lparr> error := Some ''Failed to analyze content. Please check your connection and try again.'',
        summaryState := \<lparr> isLoading = False, showSummary = False, type = None \<rparr> \<rparr>"

text \<open>
  The part after the \<^verbatim>\<open>await\<close>. The closure still holds the \<^verbatim>\<open>activeTab\<close> of the render
  in which the button was pressed (\<open>t\<close>); the state setters write into the state as it is
  when the promise settles (\<open>s\<close>).
\<close>

definition handleSubmit_resume :: "tab \<Rightarrow> fetch_outcome \<Rightarrow> controller \<Rightarrow> controller" where
  "handleSubmit_resume t r s =
     (case r of
        NetworkFailure \<Rightarrow> catch_block s
      | Response status js \<Rightarrow>
          if \<not> ok status then catch_block s
          else (case js of
                  Unparsable \<Rightarrow> catch_block s
                | Falsy \<Rightarrow>
                    s\<lparr> analysisData := None,
                       summaryState := \<lparr> isLoading = False, showSummary = True,
                                          type = Some t \<rparr> \<rparr>
                | Parsed data \<Rightarrow>
                    s\<lparr> analysisData := Some data,
                       summaryState := \<lparr> isLoading = False, showSummary = True,
                                          type = Some t \<rparr> \<rparr>))"

text \<open>
  One whole call with nothing happening in between: \<open>fetch\<close> says how the network
  answers a request. The result is the final state and the requests issued.
\<close>

definition handleSubmit ::
  "(request \<Rightarrow> fetch_outcome) \<Rightarrow> controller \<Rightarrow> controller \<times> request list" where
  "handleSubmit fetch s =
     (case handleSubmit_begin s of
        (s1, None) \<Rightarrow> (s1, [])
      | (s1, Some rq) \<Rightarrow> (handleSubmit_resume (activeTab s) (fetch rq) s1, [rq]))"

subsection \<open>handleBack (lines 91--96)\<close>

definition handleBack :: "controller \<Rightarrow> controller" where
  "handleBack s =
     s\<lparr> summaryState := \<lparr> isLoading = False, showSummary = False, type = None \<rparr>,
        activeSection := summarize,
        analysisData := None,
        error := None \<rparr>"

subsection \<open>toggleTimeline (lines 98--104)\<close>

definition toggle :: "nat \<Rightarrow> nat list \<Rightarrow> nat list" where
  "toggle index prev =
     (if index \<in> set prev then filter (\<lambda>i. i \<noteq> index) prev else prev @ [index])"

definition toggleTimeline :: "nat \<Rightarrow> controller \<Rightarrow> controller" where
  "toggleTimeline index s = s\<lparr> expandedTimeline := toggle index (expandedTimeline s) \<rparr>"

section \<open>What is rendered, and which handlers the user can reach\<close>

text \<open>
  Line 118: the result view is returned when \<^verbatim>\<open>summaryState.showSummary && analysisData\<close>
  holds; otherwise the input view of lines 387--468 is returned.
\<close>

definition result_view :: "controller \<Rightarrow> bool" where
  "result_view s \<longleftrightarrow> showSummary (summaryState s) \<and> analysisData s \<noteq> None"

text \<open>
  Lines 200--222: one row per timeline item, in order; a row shows its summary text exactly
  if \<^verbatim>\<open>expandedTimeline.includes(index)\<close>. The rows are given as the list of these flags.
\<close>

definition timeline_rows :: "controller \<Rightarrow> bool list" where
  "timeline_rows s =
     (case analysisData s of
        None \<Rightarrow> []
      | Some data \<Rightarrow>
          map (\<lambda>(index, item). index \<in> set (expandedTimeline s))
              (enumerate 0 (timeline_summary data)))"

text \<open>
  The mounted component: its state, the calls of \<open>handleSubmit\<close> that wait for their
  promise (each with the \<^verbatim>\<open>activeTab\<close> its closure captured), and the requests handed to
  \<^verbatim>\<open>fetch\<close> so far.
\<close>

record component =
  ctl :: controller
  in_flight :: "tab list"
  sent :: "request list"

definition mounted :: component where
  "mounted = \<lparr> ctl = initial, in_flight = [], sent = [] \<rparr>"

text \<open>
  The events are the \<^verbatim>\<open>onClick\<close> and \<^verbatim>\<open>onChange\<close> handlers of the rendered elements and
  the settling of a pending \<^verbatim>\<open>fetch\<close>. An event can happen only where its element is
  rendered:
  the two tab buttons (lines 390--411) in the input view;
  the URL field (lines 434--440) in the input view, when not loading, on the YouTube tab;
  the Start Analysis button (lines 441--448 and 456--463) in the input view when not loading;
  the three section buttons (lines 124--156) in the result view;
  the timeline rows (line 203) and Back to Input (line 227) in the result view while the
  section is \<open>summarize\<close>.
\<close>

datatype event =
    ClickTab tab
  | TypeUrl js_string
  | ClickSubmit
  | Settle fetch_outcome
  | ClickSection result_section
  | ClickTimeline nat
  | ClickBack

definition step :: "event \<Rightarrow> component \<Rightarrow> component option" where
  "step ev c =
     (let s = ctl c in
      case ev of
        ClickTab t \<Rightarrow>
          if \<not> result_view s then Some (c\<lparr> ctl := s\<lparr> activeTab := t \<rparr> \<rparr>) else None
      | TypeUrl u \<Rightarrow>
          if \<not> result_view s \<and> \<not> isLoading (summaryState s) \<and> activeTab s = youtube
          then Some (c\<lparr> ctl := s\<lparr> youtubeUrl := u \<rparr> \<rparr>) else None
      | ClickSubmit \<Rightarrow>
          if \<not> result_view s \<and> \<not> isLoading (summaryState s)
          then (case handleSubmit_begin s of
                  (s1, None) \<Rightarrow> Some (c\<lparr> ctl := s1 \<rparr>)
                | (s1, Some rq) \<Rightarrow>
                    Some (c\<lparr> ctl := s1, in_flight := in_flight c @ [activeTab s],
                            sent := sent c @ [rq] \<rparr>))
          else None
      | Settle r \<Rightarrow>
          (case in_flight c of
             [] \<Rightarrow> None
           | t # ts \<Rightarrow> Some (c\<lparr> ctl := handleSubmit_resume t r s, in_flight := ts \<rparr>))
      | ClickSection sec \<Rightarrow>
          if result_view s then Some (c\<lparr> ctl := s\<lparr> activeSection := sec \<rparr> \<rparr>) else None
      | ClickTimeline index \<Rightarrow>
          if result_view s \<and> activeSection s = summarize
             \<and> index < length (timeline_rows s)
          then Some (c\<lparr> ctl := toggleTimeline index s \<rparr>) else None
      | ClickBack \<Rightarrow>
          if result_view s \<and> activeSection s = summarize
          then Some (c\<lparr> ctl := handleBack s \<rparr>) else None)"

fun exec :: "event list \<Rightarrow> component \<Rightarrow> component option" where
  "exec [] c = Some c"
| "exec (ev # evs) c = (case step ev c of None \<Rightarrow> None | Some c' \<Rightarrow> exec evs c')"

text \<open>The combinations of state cells that occur in a mounted component.\<close>

definition consistent :: "component \<Rightarrow> bool" where
  "consistent c \<longleftrightarrow>
     (let s = ctl c in
      (isLoading (summaryState s) \<longleftrightarrow> in_flight c \<noteq> [])
      \<and> length (in_flight c) \<le> 1
      \<and> (if showSummary (summaryState s) then isLoading (summaryState s) = False
          else analysisData s = None)
      \<and> (if result_view s then True else activeSection s = summarize))"


section \<open>The summarizer service\<close>

text \<open>
  The compiled module at the end of the source file (from line 471) carries the
  instructions, constants and names of \<^verbatim>\<open>SummarizerService\<close>. Both methods have the
  same shape: a \<^verbatim>\<open>try\<close> block that calls \<^verbatim>\<open>logger.info\<close> with a constant, builds a
  value from constants and returns it, and a handler \<^verbatim>\<open>except Exception as e\<close> that calls
  \<^verbatim>\<open>logger.error\<close> and raises \<^verbatim>\<open>Exception\<close> with a prefixed message. Neither method
  reads its parameters.
\<close>

subsection \<open>Python strings and exceptions\<close>

text \<open>
  \<^verbatim>\<open>str.strip()\<close> without argument removes, from both ends, the characters for which
  \<^verbatim>\<open>str.isspace\<close> holds; the constants of the module are ASCII, and these are the
  characters of that kind below 256.
\<close>

definition isspace :: "char \<Rightarrow> bool" where
  "isspace ch \<longleftrightarrow>
     ch \<in> set [CHR 0x09, CHR 0x0A, CHR 0x0B, CHR 0x0C, CHR 0x0D, CHR 0x1C, CHR 0x1D,
                CHR 0x1E, CHR 0x1F, CHR 0x20, CHR 0x85, CHR 0xA0]"

definition strip :: "string \<Rightarrow> string" where
  "strip s = rev (dropWhile isspace (rev (dropWhile isspace s)))"

text \<open>
  An exception in flight: whether it is an instance of \<^verbatim>\<open>Exception\<close> (which
  \<^verbatim>\<open>KeyboardInterrupt\<close>, \<^verbatim>\<open>SystemExit\<close>, \<^verbatim>\<open>GeneratorExit\<close> and
  \<^verbatim>\<open>asyncio.CancelledError\<close> are not), and what \<^verbatim>\<open>str\<close> returns for it.
\<close>

datatype py_exception = Raised (isinstance_Exception: bool) (str: string)

definition Exception :: "string \<Rightarrow> py_exception" where
  "Exception msg = Raised True msg"

text \<open>
  The calls of the module-level logger. A call either returns (\<open>None\<close>) or raises.
\<close>

record logger =
  logger_info :: "string \<Rightarrow> py_exception option"
  logger_error :: "string \<Rightarrow> py_exception option"

subsection \<open>generate_summary\<close>

definition mock_summary :: string where
  "mock_summary =
     ''\<newline>            This comprehensive guide explores the fundamental concepts of machine learning, covering supervised and \<newline>            unsupervised learning techniques, model evaluation, and practical applications in real-world scenarios. \<newline>            The video provides clear explanations of key algorithms like linear regression and decision trees, \<newline>            while emphasizing best practices for avoiding common pitfalls like overfitting and underfitting.\<newline>            ''"

text \<open>
  The \<^verbatim>\<open>try\<close> block: \<^verbatim>\<open>logger.info\<close>, then \<^verbatim>\<open>mock_summary.strip()\<close>, which is a
  method of a string constant and does not raise.
\<close>

definition summary_try :: "logger \<Rightarrow> py_exception + string" where
  "summary_try lg =
     (case logger_info lg ''Generating overall summary'' of
        Some e \<Rightarrow> Inl e
      | None \<Rightarrow> Inr (strip mock_summary))"

definition generate_summary :: "logger \<Rightarrow> string \<Rightarrow> py_exception + string" where
  "generate_summary lg transcript =
     (case summary_try lg of
        Inr r \<Rightarrow> Inr r
      | Inl e \<Rightarrow>
          if isinstance_Exception e
          then (case logger_error lg (''Error generating summary: '' @ str e) of
                  None \<Rightarrow> Inl (Exception (''Failed to generate summary: '' @ str e))
                | Some e' \<Rightarrow> Inl e')
          else Inl e)"

subsection \<open>generate_timeline_summary\<close>

text \<open>
  Modelled from the spec: the Python class \<^verbatim>\<open>TimelineItem\<close> of \<^verbatim>\<open>models.schemas\<close>, which
  is imported by the module but is not part of the source file. The spec gives it as
  \<^verbatim>\<open>TimelineItem{timestamp: string, summary: string}\<close>, and the module calls it with
  these two keywords, so a call that returns yields the record of the interface of the same
  name (lines 10--13) with the two arguments as its fields. Whether a call returns is not
  known from the source: it is the parameter \<open>init\<close>, which says for the two arguments
  whether the call raises, and what.
\<close>

type_synonym TimelineItem_init = "string \<Rightarrow> string \<Rightarrow> py_exception option"

definition mock_timeline :: "TimelineItem list" where
  "mock_timeline =
     [\<lparr> timestamp = ''00:00 - 01:00'',
        summary = ''Introduction to machine learning concepts and why they matter in today's technology landscape.'' \<rparr>,
      \<lparr> timestamp = ''01:00 - 02:30'',
        summary = ''Deep dive into supervised learning algorithms including linear regression and decision trees.'' \<rparr>,
      \<lparr> timestamp = ''02:30 - 04:00'',
        summary = ''Practical examples of implementing basic ML models using Python and popular libraries.'' \<rparr>,
      \<lparr> timestamp = ''04:00 - 05:15'',
        summary = ''Discussion of unsupervised learning techniques and clustering algorithms.'' \<rparr>,
      \<lparr> timestamp = ''05:15 - 06:30'',
        summary = ''Best practices for model evaluation, cross-validation, and avoiding overfitting.'' \<rparr>]"

text \<open>
  The list display of the \<^verbatim>\<open>try\<close> block: the five calls of \<^verbatim>\<open>TimelineItem\<close> are
  evaluated from left to right, and the first one that raises ends the evaluation.
\<close>

fun construct :: "TimelineItem_init \<Rightarrow> TimelineItem list \<Rightarrow> py_exception + TimelineItem list" where
  "construct init [] = Inr []"
| "construct init (item # items) =
     (case init (timestamp item) (summary item) of
        Some e \<Rightarrow> Inl e
      | None \<Rightarrow>
          (case construct init items of
             Inl e \<Rightarrow> Inl e
           | Inr rest \<Rightarrow> Inr (item # rest)))"

definition timeline_try :: "logger \<Rightarrow> TimelineItem_init \<Rightarrow> py_exception + TimelineItem list" where
  "timeline_try lg init =
     (case logger_info lg ''Generating timeline summary'' of
        Some e \<Rightarrow> Inl e
      | None \<Rightarrow> construct init mock_timeline)"

definition generate_timeline_summary ::
  "logger \<Rightarrow> TimelineItem_init \<Rightarrow> string \<Rightarrow> int \<Rightarrow> py_exception + TimelineItem list" where
  "generate_timeline_summary lg init transcript duration_seconds =
     (case timeline_try lg init of
        Inr r \<Rightarrow> Inr r
      | Inl e \<Rightarrow>
          if isinstance_Exception e
          then (case logger_error lg (''Error generating timeline summary: '' @ str e) of
                  None \<Rightarrow> Inl (Exception (''Failed to generate timeline summary: '' @ str e))
                | Some e' \<Rightarrow> Inl e')
          else Inl e)"

section \<open>A concrete response\<close>

text \<open>
  The ASCII text of a URL as UTF-16 code units, and a response body whose summary and
  five-item timeline are the ones the service produces; the remaining fields are blank.
\<close>

definition utf16 :: "string \<Rightarrow> js_string" where
  "utf16 cs = map of_char cs"

definition sample_response :: AnalysisData where
  "sample_response =
     \<lparr> video_metadata = \<lparr> title = [], duration = 0, thumbnail_url = [], channel_name = [],
                            view_count = None, published_at = None \<rparr>,
       data_summary = strip mock_summary,
       timeline_summary = mock_timeline,
       viral_score = 0, viral_label = [], viral_explanation = [],
       recommendations = \<lparr> rec_title = [], target_audience = [], content_style = [],
         suggested_structure = \<lparr> hook = [], introduction = [], main_content = [],
                                  call_to_action = [] \<rparr>,
         pro_tips = [], estimated_viral_score = 0 \<rparr> \<rparr>"

section \<open>Properties of the handlers\<close>

subsection \<open>Blank URLs\<close>

lemma trim_empty_iff: "trim s = [] \<longleftrightarrow> (\<forall>c \<in> set s. isWhiteSpace c)"
proof
  assume "trim s = []"
  then have all: "\<forall>c \<in> set (dropWhile isWhiteSpace s). isWhiteSpace c"
    by (simp add: trim_def)
  have "dropWhile isWhiteSpace s = []"
  proof (cases "dropWhile isWhiteSpace s")
    case Nil
    then show ?thesis .
  next
    case (Cons c cs)
    then have "\<not> isWhiteSpace c"
      using hd_dropWhile [of isWhiteSpace s] by simp
    with all Cons show ?thesis by simp
  qed
  then show "\<forall>c \<in> set s. isWhiteSpace c"
    by simp
next
  assume "\<forall>c \<in> set s. isWhiteSpace c"
  then have "dropWhile isWhiteSpace s = []"
    by simp
  then show "trim s = []"
    by (simp only: trim_def rev.simps dropWhile.simps)
qed


subsection \<open>State combinations of the mounted component\<close>

lemma consistent_mounted: "consistent mounted"
  by (simp add: consistent_def mounted_def initial_def)

lemma consistent_step:
  assumes "consistent c" and "step ev c = Some c'"
  shows "consistent c'"
proof (cases ev)
  case (ClickTab t)
  with assms show ?thesis
    by (auto simp: step_def consistent_def result_view_def Let_def split: if_splits)
next
  case (TypeUrl u)
  with assms show ?thesis
    by (auto simp: step_def consistent_def result_view_def Let_def split: if_splits)
next
  case ClickSubmit
  with assms show ?thesis
    by (auto simp: step_def consistent_def result_view_def handleSubmit_begin_def Let_def
             split: if_splits)
next
  case (Settle r)
  with assms show ?thesis
    by (cases "in_flight c")
       (auto simp: step_def consistent_def handleSubmit_resume_def catch_block_def Let_def
                   result_view_def
             split: if_splits fetch_outcome.splits json_body.splits)
next
  case (ClickSection sec)
  with assms show ?thesis
    by (auto simp: step_def consistent_def result_view_def Let_def split: if_splits)
next
  case (ClickTimeline i)
  with assms show ?thesis
    by (auto simp: step_def consistent_def result_view_def toggleTimeline_def Let_def
             split: if_splits)
next
  case ClickBack
  with assms show ?thesis
    by (auto simp: step_def consistent_def result_view_def handleBack_def Let_def
             split: if_splits)
qed

lemma consistent_exec:
  "consistent c \<Longrightarrow> exec evs c = Some c' \<Longrightarrow> consistent c'"
proof (induction evs arbitrary: c)
  case Nil
  then show ?case by simp
next
  case (Cons ev evs)
  then obtain c1 where s1: "step ev c = Some c1" and e1: "exec evs c1 = Some c'"
    by (auto split: option.splits)
  from Cons.prems(1) s1 have "consistent c1" by (rule consistent_step)
  with e1 show ?case by (rule Cons.IH [rotated])
qed

lemma reachable_consistent: "exec evs mounted = Some c \<Longrightarrow> consistent c"
  using consistent_mounted by (rule consistent_exec)


lemma settle_enabled_loading:
  assumes "consistent c" and "step (Settle r) c = Some c'"
  shows "isLoading (summaryState (ctl c)) = True \<and> showSummary (summaryState (ctl c)) = False
         \<and> analysisData (ctl c) = None \<and> activeSection (ctl c) = summarize
         \<and> (\<exists>t. in_flight c = [t] \<and> c' = c\<lparr> ctl := handleSubmit_resume t r (ctl c), in_flight := [] \<rparr>)"
proof (cases "in_flight c")
  case Nil
  with assms(2) show ?thesis by (simp add: step_def)
next
  case (Cons t ts)
  with assms(1) have ts: "ts = []" by (simp add: consistent_def Let_def)
  from assms(1) Cons have l: "isLoading (summaryState (ctl c)) = True"
    by (simp add: consistent_def Let_def)
  from l assms(1) have n: "showSummary (summaryState (ctl c)) = False"
    by (auto simp: consistent_def Let_def split: if_splits)
  from n assms(1) have d: "analysisData (ctl c) = None"
    by (auto simp: consistent_def Let_def split: if_splits)
  from n have "\<not> result_view (ctl c)"
    by (simp add: result_view_def)
  with assms(1) have a: "activeSection (ctl c) = summarize"
    by (auto simp: consistent_def Let_def split: if_splits)
  from assms(2) Cons ts
  have "c' = c\<lparr> ctl := handleSubmit_resume t r (ctl c), in_flight := [] \<rparr>"
    by (simp add: step_def Let_def)
  with l n d a Cons ts show ?thesis by simp
qed




lemma resume_failure:
  assumes "r = NetworkFailure \<or> (\<exists>status js. r = Response status js \<and> \<not> ok status)"
  shows "handleSubmit_resume t r s = catch_block s"
  using assms by (auto simp: handleSubmit_resume_def)

subsection \<open>Submitting\<close>




text \<open>
  C10. On the \<open>document\<close> tab \<open>handleSubmit\<close> has no check of the URL field: in every state,
  whatever the field holds (the empty text included), it enters Loading and hands \<^verbatim>\<open>fetch\<close>
  a POST to \<^verbatim>\<open>/api/analyze\<close> whose body object has the single field \<^verbatim>\<open>youtube_url\<close>,
  holding the text of the URL field; nothing of an uploaded file is in the request.
\<close>

theorem document_tab_submit:
  assumes "activeTab s = document"
  shows "handleSubmit_begin s
           = (s\<lparr> error := None,
                  summaryState := \<lparr> isLoading = True, showSummary = False,
                                     type = Some document \<rparr> \<rparr>,
              Some \<lparr> url = ''http://localhost:8000/api/analyze'', http_method = ''POST'',
                     headers = [(''Content-Type'', ''application/json'')],
                     body = [(''youtube_url'', youtubeUrl s)] \<rparr>)
         \<and> snd (handleSubmit fetch s)
           = [\<lparr> url = ''http://localhost:8000/api/analyze'', http_method = ''POST'',
                 headers = [(''Content-Type'', ''application/json'')],
                 body = [(''youtube_url'', youtubeUrl s)] \<rparr>]"
  using assms by (simp add: handleSubmit_def handleSubmit_begin_def analyze_request_def)

theorem document_tab_submit_witness:
  "activeTab (initial\<lparr> activeTab := document \<rparr>) = document
   \<and> youtubeUrl (initial\<lparr> activeTab := document \<rparr>) = []
   \<and> snd (handleSubmit (\<lambda>rq. NetworkFailure) (initial\<lparr> activeTab := document \<rparr>))
     = [\<lparr> url = ''http://localhost:8000/api/analyze'', http_method = ''POST'',
           headers = [(''Content-Type'', ''application/json'')],
           body = [(''youtube_url'', [])] \<rparr>]"
proof -
  have h: "activeTab (initial\<lparr> activeTab := document \<rparr>) = document" by simp
  from document_tab_submit [OF h, of "\<lambda>rq. NetworkFailure"] h
  show ?thesis by (simp add: initial_def)
qed

subsection \<open>Settling of the request\<close>

text \<open>
  C2. Let the awaited \<^verbatim>\<open>fetch\<close> be rejected, or resolved with a status outside
  200--299. Then, in every state, the rest of \<open>handleSubmit\<close> sets the error to the one
  generic text, sets \<open>isLoading\<close> and \<open>showSummary\<close> to false and \<open>type\<close> to null, and
  does not write \<open>analysisData\<close>. In the mounted component the call was made from Loading,
  and afterwards no analysis result is stored and the input view is rendered.
\<close>

theorem failed_fetch_returns_to_input:
  assumes "r = NetworkFailure \<or> (\<exists>status js. r = Response status js \<and> \<not> ok status)"
  shows "error (handleSubmit_resume t r s)
           = Some ''Failed to analyze content. Please check your connection and try again.''
         \<and> summaryState (handleSubmit_resume t r s)
           = \<lparr> isLoading = False, showSummary = False, type = None \<rparr>
         \<and> analysisData (handleSubmit_resume t r s) = analysisData s
         \<and> (\<forall>evs c c'. exec evs mounted = Some c \<and> step (Settle r) c = Some c'
              \<longrightarrow> isLoading (summaryState (ctl c)) = True
                  \<and> error (ctl c')
                      = Some ''Failed to analyze content. Please check your connection and try again.''
                  \<and> isLoading (summaryState (ctl c')) = False
                  \<and> showSummary (summaryState (ctl c')) = False
                  \<and> analysisData (ctl c') = None
                  \<and> \<not> result_view (ctl c'))"
proof (intro conjI allI impI)
  from assms have f: "\<And>t s. handleSubmit_resume t r s = catch_block s"
    by (rule resume_failure)
  show "error (handleSubmit_resume t r s)
          = Some ''Failed to analyze content. Please check your connection and try again.''"
    by (simp add: f catch_block_def)
  show "summaryState (handleSubmit_resume t r s)
          = \<lparr> isLoading = False, showSummary = False, type = None \<rparr>"
    by (simp add: f catch_block_def)
  show "analysisData (handleSubmit_resume t r s) = analysisData s"
    by (simp add: f catch_block_def)
  fix evs c c'
  assume h: "exec evs mounted = Some c \<and> step (Settle r) c = Some c'"
  then have "consistent c" using reachable_consistent by blast
  with h obtain t' where
    pre: "isLoading (summaryState (ctl c)) = True" "analysisData (ctl c) = None"
    and c': "c' = c\<lparr> ctl := handleSubmit_resume t' r (ctl c), in_flight := [] \<rparr>"
    using settle_enabled_loading by blast
  from c' f have ctl: "ctl c' = catch_block (ctl c)"
    by simp
  show "isLoading (summaryState (ctl c)) = True"
    by (rule pre(1))
  show "error (ctl c')
          = Some ''Failed to analyze content. Please check your connection and try again.''"
    by (simp add: ctl catch_block_def)
  show "isLoading (summaryState (ctl c')) = False"
    by (simp add: ctl catch_block_def)
  show "showSummary (summaryState (ctl c')) = False"
    by (simp add: ctl catch_block_def)
  show "analysisData (ctl c') = None"
    using pre(2) by (simp add: ctl catch_block_def)
  show "\<not> result_view (ctl c')"
    by (simp add: ctl catch_block_def result_view_def)
qed

theorem failed_fetch_returns_to_input_witness:
  "\<not> ok 500
   \<and> exec [ClickTab document, ClickSubmit] mounted
     = Some \<lparr> ctl = initial\<lparr> activeTab := document,
                 summaryState := \<lparr> isLoading = True, showSummary = False,
                                    type = Some document \<rparr> \<rparr>,
               in_flight = [document], sent = [analyze_request []] \<rparr>
   \<and> step (Settle (Response 500 Unparsable))
        \<lparr> ctl = initial\<lparr> activeTab := document,
                 summaryState := \<lparr> isLoading = True, showSummary = False,
                                    type = Some document \<rparr> \<rparr>,
          in_flight = [document], sent = [analyze_request []] \<rparr>
     = Some \<lparr> ctl = catch_block (initial\<lparr> activeTab := document \<rparr>),
               in_flight = [], sent = [analyze_request []] \<rparr>
   \<and> error (catch_block (initial\<lparr> activeTab := document \<rparr>))
       = Some ''Failed to analyze content. Please check your connection and try again.''
   \<and> analysisData (catch_block (initial\<lparr> activeTab := document \<rparr>)) = None"
proof -
  let ?c = "\<lparr> ctl = initial\<lparr> activeTab := document,
                 summaryState := \<lparr> isLoading = True, showSummary = False,
                                    type = Some document \<rparr> \<rparr>,
               in_flight = [document], sent = [analyze_request []] \<rparr>"
  let ?c' = "\<lparr> ctl = catch_block (initial\<lparr> activeTab := document \<rparr>),
               in_flight = [], sent = [analyze_request []] \<rparr>"
  have k: "\<not> ok 500"
    by (simp add: ok_def)
  then have r: "Response 500 Unparsable = NetworkFailure
           \<or> (\<exists>status js. Response 500 Unparsable = Response status js \<and> \<not> ok status)"
    by simp
  have e: "exec [ClickTab document, ClickSubmit] mounted = Some ?c"
    by (simp add: step_def mounted_def initial_def result_view_def handleSubmit_begin_def)
  have s: "step (Settle (Response 500 Unparsable)) ?c = Some ?c'"
    by (simp add: step_def handleSubmit_resume_def ok_def catch_block_def initial_def)
  note main = failed_fetch_returns_to_input [OF r]
  note run = main [THEN conjunct2, THEN conjunct2, THEN conjunct2, rule_format,
      of "[ClickTab document, ClickSubmit]" ?c ?c']
  from e s have both: "exec [ClickTab document, ClickSubmit] mounted = Some ?c
      \<and> step (Settle (Response 500 Unparsable)) ?c = Some ?c'"
    by (intro conjI)
  from run [OF both] have "error (ctl ?c')
      = Some ''Failed to analyze content. Please check your connection and try again.''"
    and "analysisData (ctl ?c') = None"
    by blast+
  then have a: "error (catch_block (initial\<lparr> activeTab := document \<rparr>))
       = Some ''Failed to analyze content. Please check your connection and try again.''"
    and b: "analysisData (catch_block (initial\<lparr> activeTab := document \<rparr>)) = None"
    by simp_all
  from k e s a b show ?thesis by (intro conjI)
qed

text \<open>
  C3. Let the response have a status in 200--299 and a body that parses to \<open>data\<close>. Then,
  in every state, the rest of \<open>handleSubmit\<close> sets \<open>isLoading\<close> to false, \<open>showSummary\<close>
  to true and \<open>analysisData\<close> to \<open>data\<close>, and leaves \<open>activeSection\<close> as it is. In the
  mounted component this takes Loading (\<open>isLoading\<close> true, \<open>showSummary\<close> false) to
  Result (the result view is rendered), and the selected section then is \<open>summarize\<close>.
\<close>

theorem successful_fetch_enters_result:
  assumes "ok status"
  shows "summaryState (handleSubmit_resume t (Response status (Parsed data)) s)
           = \<lparr> isLoading = False, showSummary = True, type = Some t \<rparr>
         \<and> analysisData (handleSubmit_resume t (Response status (Parsed data)) s) = Some data
         \<and> activeSection (handleSubmit_resume t (Response status (Parsed data)) s)
           = activeSection s
         \<and> (\<forall>evs c c'. exec evs mounted = Some c
                \<and> step (Settle (Response status (Parsed data))) c = Some c'
              \<longrightarrow> isLoading (summaryState (ctl c)) = True
                  \<and> showSummary (summaryState (ctl c)) = False
                  \<and> isLoading (summaryState (ctl c')) = False
                  \<and> showSummary (summaryState (ctl c')) = True
                  \<and> analysisData (ctl c') = Some data
                  \<and> result_view (ctl c')
                  \<and> activeSection (ctl c') = summarize)"
proof (intro conjI allI impI)
  from assms have f: "\<And>t s. handleSubmit_resume t (Response status (Parsed data)) s
      = s\<lparr> analysisData := Some data,
           summaryState := \<lparr> isLoading = False, showSummary = True, type = Some t \<rparr> \<rparr>"
    by (simp add: handleSubmit_resume_def)
  show "summaryState (handleSubmit_resume t (Response status (Parsed data)) s)
          = \<lparr> isLoading = False, showSummary = True, type = Some t \<rparr>"
    by (simp add: f)
  show "analysisData (handleSubmit_resume t (Response status (Parsed data)) s) = Some data"
    by (simp add: f)
  show "activeSection (handleSubmit_resume t (Response status (Parsed data)) s) = activeSection s"
    by (simp add: f)
  fix evs c c'
  assume h: "exec evs mounted = Some c \<and> step (Settle (Response status (Parsed data))) c = Some c'"
  then have "consistent c" using reachable_consistent by blast
  with h obtain t' where
    pre: "isLoading (summaryState (ctl c)) = True" "showSummary (summaryState (ctl c)) = False"
      "activeSection (ctl c) = summarize"
    and c': "c' = c\<lparr> ctl := handleSubmit_resume t' (Response status (Parsed data)) (ctl c),
                       in_flight := [] \<rparr>"
    using settle_enabled_loading by blast
  from c' f have ctl: "ctl c' = (ctl c)\<lparr> analysisData := Some data,
           summaryState := \<lparr> isLoading = False, showSummary = True, type = Some t' \<rparr> \<rparr>"
    by simp
  show "isLoading (summaryState (ctl c)) = True"
    by (rule pre(1))
  show "showSummary (summaryState (ctl c)) = False"
    by (rule pre(2))
  show "isLoading (summaryState (ctl c')) = False"
    by (simp add: ctl)
  show "showSummary (summaryState (ctl c')) = True"
    by (simp add: ctl)
  show "analysisData (ctl c') = Some data"
    by (simp add: ctl)
  show "result_view (ctl c')"
    by (simp add: ctl result_view_def)
  show "activeSection (ctl c') = summarize"
    using pre(3) by (simp add: ctl)
qed

theorem successful_fetch_enters_result_witness:
  "ok 200
   \<and> exec [TypeUrl (utf16 ''https://youtube.com/watch?v=abc''), ClickSubmit] mounted
     = Some \<lparr> ctl = initial\<lparr> youtubeUrl := utf16 ''https://youtube.com/watch?v=abc'',
                 summaryState := \<lparr> isLoading = True, showSummary = False,
                                    type = Some youtube \<rparr> \<rparr>,
               in_flight = [youtube],
               sent = [analyze_request (utf16 ''https://youtube.com/watch?v=abc'')] \<rparr>
   \<and> step (Settle (Response 200 (Parsed sample_response)))
        \<lparr> ctl = initial\<lparr> youtubeUrl := utf16 ''https://youtube.com/watch?v=abc'',
                 summaryState := \<lparr> isLoading = True, showSummary = False,
                                    type = Some youtube \<rparr> \<rparr>,
          in_flight = [youtube],
          sent = [analyze_request (utf16 ''https://youtube.com/watch?v=abc'')] \<rparr>
     = Some \<lparr> ctl = initial\<lparr> youtubeUrl := utf16 ''https://youtube.com/watch?v=abc'',
                 analysisData := Some sample_response,
                 summaryState := \<lparr> isLoading = False, showSummary = True,
                                    type = Some youtube \<rparr> \<rparr>,
               in_flight = [],
               sent = [analyze_request (utf16 ''https://youtube.com/watch?v=abc'')] \<rparr>
   \<and> activeSection (initial\<lparr> youtubeUrl := utf16 ''https://youtube.com/watch?v=abc'',
                 analysisData := Some sample_response,
                 summaryState := \<lparr> isLoading = False, showSummary = True,
                                    type = Some youtube \<rparr> \<rparr>) = summarize"
proof -
  let ?c = "\<lparr> ctl = initial\<lparr> youtubeUrl := utf16 ''https://youtube.com/watch?v=abc'',
                 summaryState := \<lparr> isLoading = True, showSummary = False,
                                    type = Some youtube \<rparr> \<rparr>,
               in_flight = [youtube],
               sent = [analyze_request (utf16 ''https://youtube.com/watch?v=abc'')] \<rparr>"
  let ?c' = "\<lparr> ctl = initial\<lparr> youtubeUrl := utf16 ''https://youtube.com/watch?v=abc'',
                 analysisData := Some sample_response,
                 summaryState := \<lparr> isLoading = False, showSummary = True,
                                    type = Some youtube \<rparr> \<rparr>,
               in_flight = [],
               sent = [analyze_request (utf16 ''https://youtube.com/watch?v=abc'')] \<rparr>"
  have k: "ok 200"
    by (simp add: ok_def)
  have e: "exec [TypeUrl (utf16 ''https://youtube.com/watch?v=abc''), ClickSubmit] mounted = Some ?c"
    by (simp add: step_def mounted_def initial_def result_view_def handleSubmit_begin_def
          trim_empty_iff utf16_def isWhiteSpace_def)
  have s: "step (Settle (Response 200 (Parsed sample_response))) ?c = Some ?c'"
    by (simp add: step_def handleSubmit_resume_def ok_def initial_def)
  note main = successful_fetch_enters_result [OF k, of _ sample_response]
  note run = main [THEN conjunct2, THEN conjunct2, THEN conjunct2, rule_format,
      of "[TypeUrl (utf16 ''https://youtube.com/watch?v=abc''), ClickSubmit]" ?c ?c']
  from e s have both:
    "exec [TypeUrl (utf16 ''https://youtube.com/watch?v=abc''), ClickSubmit] mounted = Some ?c
      \<and> step (Settle (Response 200 (Parsed sample_response))) ?c = Some ?c'"
    by (intro conjI)
  from run [OF both] have "activeSection (ctl ?c') = summarize"
    by blast
  then have a: "activeSection (initial\<lparr> youtubeUrl := utf16 ''https://youtube.com/watch?v=abc'',
                 analysisData := Some sample_response,
                 summaryState := \<lparr> isLoading = False, showSummary = True,
                                    type = Some youtube \<rparr> \<rparr>) = summarize"
    by simp
  from k e s a show ?thesis by (intro conjI)
qed

subsection \<open>Leaving the result view\<close>

text \<open>
  C4. In every controller state, \<open>handleBack\<close> yields a state with \<open>isLoading\<close> false,
  \<open>showSummary\<close> false, \<open>type\<close> null, \<open>analysisData\<close> null, \<open>error\<close> null and
  \<open>activeSection\<close> equal to \<open>summarize\<close>, whichever section was active before.
\<close>

theorem handleBack_resets:
  "isLoading (summaryState (handleBack s)) = False
   \<and> showSummary (summaryState (handleBack s)) = False
   \<and> type (summaryState (handleBack s)) = None
   \<and> analysisData (handleBack s) = None
   \<and> error (handleBack s) = None
   \<and> activeSection (handleBack s) = summarize"
  by (simp add: handleBack_def)

subsection \<open>The timeline rows\<close>

lemma set_toggle_twice: "set (toggle i (toggle i prev)) = set prev"
  by (auto simp: toggle_def)

text \<open>
  C5. For every state and all indices \<open>i\<close> and \<open>j\<close>: after two calls of
  \<open>toggleTimeline i\<close> every index \<open>j\<close> is expanded exactly if it was before, so the rows
  render as before; and one call of \<open>toggleTimeline i\<close> does not change whether any
  \<open>j\<close> other than \<open>i\<close> is expanded. A row is expanded if its index is a member of the
  list (\<^verbatim>\<open>expandedTimeline.includes(index)\<close>).
\<close>

theorem toggle_twice_and_independent:
  "(j \<in> set (expandedTimeline (toggleTimeline i (toggleTimeline i s)))
      \<longleftrightarrow> j \<in> set (expandedTimeline s))
   \<and> timeline_rows (toggleTimeline i (toggleTimeline i s)) = timeline_rows s
   \<and> (j \<noteq> i \<longrightarrow> (j \<in> set (expandedTimeline (toggleTimeline i s))
                    \<longleftrightarrow> j \<in> set (expandedTimeline s)))"
proof (intro conjI impI)
  show "j \<in> set (expandedTimeline (toggleTimeline i (toggleTimeline i s)))
      \<longleftrightarrow> j \<in> set (expandedTimeline s)"
    by (simp add: toggleTimeline_def set_toggle_twice)
  show "timeline_rows (toggleTimeline i (toggleTimeline i s)) = timeline_rows s"
    by (simp add: timeline_rows_def toggleTimeline_def set_toggle_twice split: option.splits)
  assume "j \<noteq> i"
  then show "j \<in> set (expandedTimeline (toggleTimeline i s)) \<longleftrightarrow> j \<in> set (expandedTimeline s)"
    by (auto simp: toggleTimeline_def toggle_def)
qed

theorem toggle_twice_and_independent_witness:
  "(2::nat) \<noteq> 0
   \<and> expandedTimeline (toggleTimeline 0 (initial\<lparr> expandedTimeline := [0, 2] \<rparr>)) = [2]
   \<and> expandedTimeline (toggleTimeline 0 (toggleTimeline 0 (initial\<lparr> expandedTimeline := [0, 2] \<rparr>)))
       = [2, 0]
   \<and> (2 \<in> set (expandedTimeline (toggleTimeline 0 (initial\<lparr> expandedTimeline := [0, 2] \<rparr>)))
        \<longleftrightarrow> 2 \<in> set (expandedTimeline (initial\<lparr> expandedTimeline := [0, 2] \<rparr>)))"
proof -
  let ?s = "initial\<lparr> expandedTimeline := [0, 2] \<rparr>"
  have n: "(2::nat) \<noteq> 0" by simp
  have a: "expandedTimeline (toggleTimeline 0 ?s) = [2]"
    by (simp add: toggleTimeline_def toggle_def)
  have b: "expandedTimeline (toggleTimeline 0 (toggleTimeline 0 ?s)) = [2, 0]"
    by (simp add: toggleTimeline_def toggle_def)
  from toggle_twice_and_independent [of 2 0 ?s] n
  have c: "2 \<in> set (expandedTimeline (toggleTimeline 0 ?s)) \<longleftrightarrow> 2 \<in> set (expandedTimeline ?s)"
    by blast
  from n a b c show ?thesis by (intro conjI)
qed

lemma step_keeps_expandedTimeline:
  assumes "step ev c = Some c'" and "\<forall>i. ev \<noteq> ClickTimeline i"
  shows "expandedTimeline (ctl c') = expandedTimeline (ctl c)"
  using assms
  by (cases ev)
     (auto simp: step_def Let_def handleSubmit_begin_def handleSubmit_resume_def
                 catch_block_def handleBack_def
           split: if_splits list.splits option.splits fetch_outcome.splits json_body.splits)

lemma exec_keeps_expandedTimeline:
  "exec evs c = Some c' \<Longrightarrow> \<forall>i. ClickTimeline i \<notin> set evs
     \<Longrightarrow> expandedTimeline (ctl c') = expandedTimeline (ctl c)"
proof (induction evs arbitrary: c)
  case Nil
  then show ?case by simp
next
  case (Cons ev evs)
  then obtain c1 where s1: "step ev c = Some c1" and e1: "exec evs c1 = Some c'"
    by (auto split: option.splits)
  from Cons.prems(2) have "\<forall>i. ev \<noteq> ClickTimeline i" and rest: "\<forall>i. ClickTimeline i \<notin> set evs"
    by auto
  with s1 have "expandedTimeline (ctl c1) = expandedTimeline (ctl c)"
    using step_keeps_expandedTimeline by blast
  moreover from e1 rest have "expandedTimeline (ctl c') = expandedTimeline (ctl c1)"
    by (rule Cons.IH)
  ultimately show ?case by simp
qed

lemma rows_first_only:
  "map (\<lambda>(index, item). index = (0::nat)) (enumerate 0 xs) = map (\<lambda>i. i = 0) [0..<length xs]"
  by (rule nth_equalityI) (simp_all add: nth_enumerate_eq)

text \<open>
  C6, as the code has it. \<open>expandedTimeline\<close> starts as \<open>[0]\<close> and only a click on a
  timeline row changes it. So in every state the mounted component reaches without such a
  click, in particular on entering the result view for the first time, the list is \<open>[0]\<close>
  and the rows of a timeline of \<open>n\<close> items render with the first one expanded and all
  others collapsed.
\<close>

theorem first_row_expanded_until_toggled:
  assumes "exec evs mounted = Some c" and "\<forall>i. ClickTimeline i \<notin> set evs"
    and "analysisData (ctl c) = Some data"
  shows "expandedTimeline (ctl c) = [0]
         \<and> timeline_rows (ctl c) = map (\<lambda>i. i = 0) [0..<length (timeline_summary data)]"
proof -
  from assms(1,2) have "expandedTimeline (ctl c) = expandedTimeline (ctl mounted)"
    by (rule exec_keeps_expandedTimeline)
  then have e: "expandedTimeline (ctl c) = [0]"
    by (simp add: mounted_def initial_def)
  with assms(3) show ?thesis
    by (simp add: timeline_rows_def rows_first_only)
qed

theorem first_row_expanded_until_toggled_witness:
  "exec [TypeUrl (utf16 ''https://youtube.com/watch?v=abc''), ClickSubmit,
         Settle (Response 200 (Parsed sample_response)), ClickSection viral] mounted \<noteq> None
   \<and> (\<forall>i. ClickTimeline i \<notin> set [TypeUrl (utf16 ''https://youtube.com/watch?v=abc''),
         ClickSubmit, Settle (Response 200 (Parsed sample_response)), ClickSection viral])
   \<and> map_option (analysisData \<circ> ctl)
        (exec [TypeUrl (utf16 ''https://youtube.com/watch?v=abc''), ClickSubmit,
               Settle (Response 200 (Parsed sample_response)), ClickSection viral] mounted)
      = Some (Some sample_response)
   \<and> map_option (timeline_rows \<circ> ctl)
        (exec [TypeUrl (utf16 ''https://youtube.com/watch?v=abc''), ClickSubmit,
               Settle (Response 200 (Parsed sample_response)), ClickSection viral] mounted)
      = Some [True, False, False, False, False]"
proof -
  let ?evs = "[TypeUrl (utf16 ''https://youtube.com/watch?v=abc''), ClickSubmit,
               Settle (Response 200 (Parsed sample_response)), ClickSection viral]"
  let ?c = "\<lparr> ctl = initial\<lparr> youtubeUrl := utf16 ''https://youtube.com/watch?v=abc'',
               analysisData := Some sample_response,
               summaryState := \<lparr> isLoading = False, showSummary = True, type = Some youtube \<rparr>,
               activeSection := viral \<rparr>,
             in_flight = [],
             sent = [analyze_request (utf16 ''https://youtube.com/watch?v=abc'')] \<rparr>"
  have e: "exec ?evs mounted = Some ?c"
    by (simp add: step_def mounted_def initial_def result_view_def handleSubmit_begin_def
         handleSubmit_resume_def ok_def trim_empty_iff utf16_def isWhiteSpace_def)
  have n: "\<forall>i. ClickTimeline i \<notin> set ?evs" by simp
  have d: "analysisData (ctl ?c) = Some sample_response" by simp
  have l: "map (\<lambda>i. i = 0) [0..<length (timeline_summary sample_response)]
             = [True, False, False, False, False]"
    by (simp add: sample_response_def mock_timeline_def upt_rec)
  from first_row_expanded_until_toggled [OF e n d] e n l
  show ?thesis by simp
qed

text \<open>
  C6, as stated, fails: neither \<open>handleBack\<close> nor \<open>handleSubmit\<close> writes
  \<open>expandedTimeline\<close>. After a first analysis in which the user collapses row 0 and expands
  row 2, goes back and submits again, the result view is entered with row 2 expanded and
  row 0 collapsed.
\<close>

theorem stale_expansion:
  "map_option (result_view \<circ> ctl)
     (exec [TypeUrl (utf16 ''https://youtube.com/watch?v=abc''), ClickSubmit,
            Settle (Response 200 (Parsed sample_response)),
            ClickTimeline 0, ClickTimeline 2, ClickBack,
            ClickSubmit, Settle (Response 200 (Parsed sample_response))] mounted) = Some True
   \<and> map_option (timeline_rows \<circ> ctl)
     (exec [TypeUrl (utf16 ''https://youtube.com/watch?v=abc''), ClickSubmit,
            Settle (Response 200 (Parsed sample_response)),
            ClickTimeline 0, ClickTimeline 2, ClickBack,
            ClickSubmit, Settle (Response 200 (Parsed sample_response))] mounted)
     = Some [False, False, True, False, False]
   \<and> map_option (expandedTimeline \<circ> ctl)
     (exec [TypeUrl (utf16 ''https://youtube.com/watch?v=abc''), ClickSubmit,
            Settle (Response 200 (Parsed sample_response)),
            ClickTimeline 0, ClickTimeline 2, ClickBack,
            ClickSubmit, Settle (Response 200 (Parsed sample_response))] mounted) = Some [2]"
  by (simp add: step_def mounted_def initial_def result_view_def handleSubmit_begin_def
         handleSubmit_resume_def ok_def trim_empty_iff utf16_def isWhiteSpace_def
         timeline_rows_def sample_response_def mock_timeline_def toggleTimeline_def toggle_def
         handleBack_def enumerate_eq_zip)

subsection \<open>The summarizer service\<close>

lemma strip_mock_summary:
  "strip mock_summary =
     ''This comprehensive guide explores the fundamental concepts of machine learning, covering supervised and \<newline>            unsupervised learning techniques, model evaluation, and practical applications in real-world scenarios. \<newline>            The video provides clear explanations of key algorithms like linear regression and decision trees, \<newline>            while emphasizing best practices for avoiding common pitfalls like overfitting and underfitting.''"
  by code_simp

lemma construct_returns:
  "construct init items = Inr r \<Longrightarrow> r = items"
  by (induction items arbitrary: r) (auto split: option.splits sum.splits)

lemma construct_all_return:
  "\<forall>item \<in> set items. init (timestamp item) (summary item) = None
     \<Longrightarrow> construct init items = Inr items"
  by (induction items) simp_all

lemma construct_first_raise:
  "\<forall>item \<in> set before. init (timestamp item) (summary item) = None
     \<Longrightarrow> init (timestamp item) (summary item) = Some e
     \<Longrightarrow> construct init (before @ item # after) = Inl e"
  by (induction before) simp_all

text \<open>
  C7. \<open>generate_summary\<close> does not depend on its transcript: for any two transcripts the
  outcome is the same; whenever it returns, and it does so whenever the call of
  \<^verbatim>\<open>logger.info\<close> returns, the value is the constant paragraph without its surrounding
  white space, which is the text written out below.
\<close>

theorem generate_summary_fixed:
  "generate_summary lg t1 = generate_summary lg t2
   \<and> (\<forall>r. generate_summary lg t1 = Inr r \<longrightarrow> r = strip mock_summary)
   \<and> (logger_info lg ''Generating overall summary'' = None
        \<longrightarrow> generate_summary lg t1 = Inr (strip mock_summary))
   \<and> strip mock_summary =
     ''This comprehensive guide explores the fundamental concepts of machine learning, covering supervised and \<newline>            unsupervised learning techniques, model evaluation, and practical applications in real-world scenarios. \<newline>            The video provides clear explanations of key algorithms like linear regression and decision trees, \<newline>            while emphasizing best practices for avoiding common pitfalls like overfitting and underfitting.''"
proof -
  have "generate_summary lg t1 = generate_summary lg t2"
    by (simp add: generate_summary_def)
  moreover have "\<forall>r. generate_summary lg t1 = Inr r \<longrightarrow> r = strip mock_summary"
    by (auto simp: generate_summary_def summary_try_def split: option.splits if_splits)
  moreover have "logger_info lg ''Generating overall summary'' = None
        \<longrightarrow> generate_summary lg t1 = Inr (strip mock_summary)"
    by (simp add: generate_summary_def summary_try_def)
  ultimately show ?thesis using strip_mock_summary by blast
qed

theorem generate_summary_fixed_witness:
  "logger_info \<lparr> logger_info = (\<lambda>m. None), logger_error = (\<lambda>m. None) \<rparr>
     ''Generating overall summary'' = None
   \<and> generate_summary \<lparr> logger_info = (\<lambda>m. None), logger_error = (\<lambda>m. None) \<rparr> ''a transcript''
     = Inr (strip mock_summary)
   \<and> generate_summary \<lparr> logger_info = (\<lambda>m. None), logger_error = (\<lambda>m. None) \<rparr> ''a transcript''
     = generate_summary \<lparr> logger_info = (\<lambda>m. None), logger_error = (\<lambda>m. None) \<rparr> []"
proof -
  let ?lg = "\<lparr> logger_info = (\<lambda>m. None), logger_error = (\<lambda>m. None) \<rparr>"
  have h: "logger_info ?lg ''Generating overall summary'' = None" by simp
  note fixed = generate_summary_fixed [of ?lg "''a transcript''" "[]"]
  from fixed h have a: "generate_summary ?lg ''a transcript'' = Inr (strip mock_summary)"
    by blast
  from fixed have b: "generate_summary ?lg ''a transcript'' = generate_summary ?lg []"
    by (rule conjunct1)
  from h a b show ?thesis by (intro conjI)
qed

text \<open>
  C8. \<open>generate_timeline_summary\<close> depends neither on its transcript nor on
  \<open>duration_seconds\<close>; whenever it returns, and it does so whenever the call of
  \<^verbatim>\<open>logger.info\<close> and the five calls of \<^verbatim>\<open>TimelineItem\<close> return, the value is the same
  list of five items, whose timestamps are, in this order, 00:00 - 01:00, 01:00 - 02:30,
  02:30 - 04:00, 04:00 - 05:15 and 05:15 - 06:30.
\<close>

theorem generate_timeline_summary_fixed:
  "generate_timeline_summary lg init t1 d1 = generate_timeline_summary lg init t2 d2
   \<and> (\<forall>r. generate_timeline_summary lg init t1 d1 = Inr r \<longrightarrow> r = mock_timeline)
   \<and> (logger_info lg ''Generating timeline summary'' = None
        \<and> (\<forall>item \<in> set mock_timeline. init (timestamp item) (summary item) = None)
        \<longrightarrow> generate_timeline_summary lg init t1 d1 = Inr mock_timeline)
   \<and> length mock_timeline = 5
   \<and> map timestamp mock_timeline
       = [''00:00 - 01:00'', ''01:00 - 02:30'', ''02:30 - 04:00'', ''04:00 - 05:15'',
          ''05:15 - 06:30'']"
proof -
  have "generate_timeline_summary lg init t1 d1 = generate_timeline_summary lg init t2 d2"
    by (simp add: generate_timeline_summary_def)
  moreover have "\<forall>r. generate_timeline_summary lg init t1 d1 = Inr r \<longrightarrow> r = mock_timeline"
  proof (intro allI impI)
    fix r
    assume "generate_timeline_summary lg init t1 d1 = Inr r"
    then have "timeline_try lg init = Inr r"
      by (auto simp: generate_timeline_summary_def split: sum.splits option.splits if_splits)
    then have "construct init mock_timeline = Inr r"
      by (auto simp: timeline_try_def split: option.splits)
    then show "r = mock_timeline"
      by (rule construct_returns)
  qed
  moreover have "logger_info lg ''Generating timeline summary'' = None
        \<and> (\<forall>item \<in> set mock_timeline. init (timestamp item) (summary item) = None)
        \<longrightarrow> generate_timeline_summary lg init t1 d1 = Inr mock_timeline"
    by (simp add: generate_timeline_summary_def timeline_try_def construct_all_return)
  moreover have "length mock_timeline = 5"
    by (simp add: mock_timeline_def)
  moreover have "map timestamp mock_timeline
       = [''00:00 - 01:00'', ''01:00 - 02:30'', ''02:30 - 04:00'', ''04:00 - 05:15'',
          ''05:15 - 06:30'']"
    by (simp add: mock_timeline_def)
  ultimately show ?thesis by blast
qed

theorem generate_timeline_summary_fixed_witness:
  "logger_info \<lparr> logger_info = (\<lambda>m. None), logger_error = (\<lambda>m. None) \<rparr>
     ''Generating timeline summary'' = None
   \<and> list_all (\<lambda>item. (\<lambda>ts sm. None :: py_exception option) (timestamp item) (summary item) = None)
        mock_timeline
   \<and> generate_timeline_summary \<lparr> logger_info = (\<lambda>m. None), logger_error = (\<lambda>m. None) \<rparr>
        (\<lambda>ts sm. None) ''a transcript'' 390 = Inr mock_timeline
   \<and> generate_timeline_summary \<lparr> logger_info = (\<lambda>m. None), logger_error = (\<lambda>m. None) \<rparr>
        (\<lambda>ts sm. None) ''a transcript'' 390
     = generate_timeline_summary \<lparr> logger_info = (\<lambda>m. None), logger_error = (\<lambda>m. None) \<rparr>
        (\<lambda>ts sm. None) [] (- 1)"
proof -
  let ?lg = "\<lparr> logger_info = (\<lambda>m. None), logger_error = (\<lambda>m. None) \<rparr>"
  let ?init = "\<lambda>ts sm. None :: py_exception option"
  have h: "logger_info ?lg ''Generating timeline summary'' = None" by simp
  have i: "\<forall>item \<in> set mock_timeline. ?init (timestamp item) (summary item) = None" by simp
  have l: "list_all (\<lambda>item. ?init (timestamp item) (summary item) = None) mock_timeline"
    by (simp add: list_all_iff)
  note fixed = generate_timeline_summary_fixed [of ?lg ?init "''a transcript''" 390 "[]" "- 1"]
  from fixed h i
  have a: "generate_timeline_summary ?lg ?init ''a transcript'' 390 = Inr mock_timeline"
    by blast
  from fixed have b: "generate_timeline_summary ?lg ?init ''a transcript'' 390
            = generate_timeline_summary ?lg ?init [] (- 1)"
    by (rule conjunct1)
  from h l a b show ?thesis by (intro conjI)
qed

text \<open>
  C9, as the code has it. The \<^verbatim>\<open>try\<close> block of \<open>generate_summary\<close> raises what
  \<^verbatim>\<open>logger.info\<close> raises; the one of \<open>generate_timeline_summary\<close> raises what
  \<^verbatim>\<open>logger.info\<close> raises or else what the first failing call of \<^verbatim>\<open>TimelineItem\<close>
  raises. An exception raised there that is an instance of \<^verbatim>\<open>Exception\<close> is logged and,
  if \<^verbatim>\<open>logger.error\<close> returns, replaced by a new \<^verbatim>\<open>Exception\<close> whose message is the text
  of the original one after the prefix \<^verbatim>\<open>Failed to generate summary: \<close> (for the
  timeline, \<^verbatim>\<open>Failed to generate timeline summary: \<close>); if \<^verbatim>\<open>logger.error\<close> raises,
  what it raises leaves the method instead. An exception that is not an instance of
  \<^verbatim>\<open>Exception\<close> leaves the method as it is.
\<close>

theorem exception_wrapping:
  "(logger_info lg ''Generating overall summary'' = Some e \<longrightarrow> summary_try lg = Inl e)
   \<and> (logger_info lg ''Generating timeline summary'' = Some e \<longrightarrow> timeline_try lg init = Inl e)
   \<and> (logger_info lg ''Generating timeline summary'' = None
        \<and> mock_timeline = before @ item # after
        \<and> (\<forall>i \<in> set before. init (timestamp i) (summary i) = None)
        \<and> init (timestamp item) (summary item) = Some e
      \<longrightarrow> timeline_try lg init = Inl e)
   \<and> (summary_try lg = Inl e \<and> isinstance_Exception e
        \<and> logger_error lg (''Error generating summary: '' @ str e) = None
      \<longrightarrow> generate_summary lg t = Inl (Exception (''Failed to generate summary: '' @ str e)))
   \<and> (timeline_try lg init = Inl e \<and> isinstance_Exception e
        \<and> logger_error lg (''Error generating timeline summary: '' @ str e) = None
      \<longrightarrow> generate_timeline_summary lg init t d
            = Inl (Exception (''Failed to generate timeline summary: '' @ str e)))
   \<and> (summary_try lg = Inl e \<and> isinstance_Exception e
        \<and> logger_error lg (''Error generating summary: '' @ str e) = Some e'
      \<longrightarrow> generate_summary lg t = Inl e')
   \<and> (timeline_try lg init = Inl e \<and> isinstance_Exception e
        \<and> logger_error lg (''Error generating timeline summary: '' @ str e) = Some e'
      \<longrightarrow> generate_timeline_summary lg init t d = Inl e')
   \<and> (summary_try lg = Inl e \<and> \<not> isinstance_Exception e
      \<longrightarrow> generate_summary lg t = Inl e)
   \<and> (timeline_try lg init = Inl e \<and> \<not> isinstance_Exception e
      \<longrightarrow> generate_timeline_summary lg init t d = Inl e)"
proof (intro conjI impI)
  assume "logger_info lg ''Generating overall summary'' = Some e"
  then show "summary_try lg = Inl e"
    by (simp add: summary_try_def)
next
  assume "logger_info lg ''Generating timeline summary'' = Some e"
  then show "timeline_try lg init = Inl e"
    by (simp add: timeline_try_def)
next
  assume h: "logger_info lg ''Generating timeline summary'' = None
        \<and> mock_timeline = before @ item # after
        \<and> (\<forall>i \<in> set before. init (timestamp i) (summary i) = None)
        \<and> init (timestamp item) (summary item) = Some e"
  then have "construct init (before @ item # after) = Inl e"
    using construct_first_raise by blast
  with h show "timeline_try lg init = Inl e"
    by (simp add: timeline_try_def)
next
  assume "summary_try lg = Inl e \<and> isinstance_Exception e
        \<and> logger_error lg (''Error generating summary: '' @ str e) = None"
  then show "generate_summary lg t = Inl (Exception (''Failed to generate summary: '' @ str e))"
    by (simp add: generate_summary_def)
next
  assume "timeline_try lg init = Inl e \<and> isinstance_Exception e
        \<and> logger_error lg (''Error generating timeline summary: '' @ str e) = None"
  then show "generate_timeline_summary lg init t d
            = Inl (Exception (''Failed to generate timeline summary: '' @ str e))"
    by (simp add: generate_timeline_summary_def)
next
  assume "summary_try lg = Inl e \<and> isinstance_Exception e
        \<and> logger_error lg (''Error generating summary: '' @ str e) = Some e'"
  then show "generate_summary lg t = Inl e'"
    by (simp add: generate_summary_def)
next
  assume "timeline_try lg init = Inl e \<and> isinstance_Exception e
        \<and> logger_error lg (''Error generating timeline summary: '' @ str e) = Some e'"
  then show "generate_timeline_summary lg init t d = Inl e'"
    by (simp add: generate_timeline_summary_def)
next
  assume "summary_try lg = Inl e \<and> \<not> isinstance_Exception e"
  then show "generate_summary lg t = Inl e"
    by (simp add: generate_summary_def)
next
  assume "timeline_try lg init = Inl e \<and> \<not> isinstance_Exception e"
  then show "generate_timeline_summary lg init t d = Inl e"
    by (simp add: generate_timeline_summary_def)
qed

theorem exception_wrapping_witness:
  "logger_info \<lparr> logger_info = (\<lambda>m. Some (Raised True ''boom'')), logger_error = (\<lambda>m. None) \<rparr>
      ''Generating overall summary'' = Some (Raised True ''boom'')
   \<and> isinstance_Exception (Raised True ''boom'')
   \<and> logger_error \<lparr> logger_info = (\<lambda>m. Some (Raised True ''boom'')), logger_error = (\<lambda>m. None) \<rparr>
      (''Error generating summary: '' @ str (Raised True ''boom'')) = None
   \<and> generate_summary
        \<lparr> logger_info = (\<lambda>m. Some (Raised True ''boom'')), logger_error = (\<lambda>m. None) \<rparr> []
      = Inl (Raised True ''Failed to generate summary: boom'')
   \<and> timeline_try \<lparr> logger_info = (\<lambda>m. None), logger_error = (\<lambda>m. None) \<rparr>
        (\<lambda>ts sm. if ts = ''02:30 - 04:00'' then Some (Raised True ''invalid'') else None)
      = Inl (Raised True ''invalid'')
   \<and> generate_timeline_summary \<lparr> logger_info = (\<lambda>m. None), logger_error = (\<lambda>m. None) \<rparr>
        (\<lambda>ts sm. if ts = ''02:30 - 04:00'' then Some (Raised True ''invalid'') else None) [] 0
      = Inl (Raised True ''Failed to generate timeline summary: invalid'')"
proof -
  let ?lg = "\<lparr> logger_info = (\<lambda>m. Some (Raised True ''boom'')), logger_error = (\<lambda>m. None) \<rparr>"
  let ?ok = "\<lparr> logger_info = (\<lambda>m. None), logger_error = (\<lambda>m. None) \<rparr>"
  let ?init = "\<lambda>ts sm. if ts = ''02:30 - 04:00'' then Some (Raised True ''invalid'') else None"
  let ?e = "Raised True ''boom''"
  let ?v = "Raised True ''invalid''"
  have i: "logger_info ?lg ''Generating overall summary'' = Some ?e" by simp
  have k: "isinstance_Exception ?e" by simp
  have l: "logger_error ?lg (''Error generating summary: '' @ str ?e) = None" by simp
  note s = exception_wrapping [of ?lg ?e ?init "[]" "hd mock_timeline" "tl mock_timeline" "[]" 0 ?e]
  from s i have "summary_try ?lg = Inl ?e"
    by blast
  with s k l
  have "generate_summary ?lg [] = Inl (Exception (''Failed to generate summary: '' @ str ?e))"
    by blast
  then have a: "generate_summary ?lg [] = Inl (Raised True ''Failed to generate summary: boom'')"
    by (simp add: Exception_def)
  note u = exception_wrapping [of ?ok ?v ?init "take 2 mock_timeline" "mock_timeline ! 2"
      "drop 3 mock_timeline" "[]" 0 ?v]
  have "logger_info ?ok ''Generating timeline summary'' = None
        \<and> mock_timeline = take 2 mock_timeline @ mock_timeline ! 2 # drop 3 mock_timeline
        \<and> (\<forall>i \<in> set (take 2 mock_timeline). ?init (timestamp i) (summary i) = None)
        \<and> ?init (timestamp (mock_timeline ! 2)) (summary (mock_timeline ! 2)) = Some ?v"
    by (simp add: mock_timeline_def)
  with u have b: "timeline_try ?ok ?init = Inl ?v"
    by blast
  have "isinstance_Exception ?v
        \<and> logger_error ?ok (''Error generating timeline summary: '' @ str ?v) = None"
    by simp
  with u b have "generate_timeline_summary ?ok ?init [] 0
      = Inl (Exception (''Failed to generate timeline summary: '' @ str ?v))"
    by blast
  then have c: "generate_timeline_summary ?ok ?init [] 0
      = Inl (Raised True ''Failed to generate timeline summary: invalid'')"
    by (simp add: Exception_def)
  from i k l a b c show ?thesis by (intro conjI)
qed

text \<open>
  C9, as stated, fails in two ways. The handler is \<^verbatim>\<open>except Exception\<close>, so an exception
  outside that class, such as a \<^verbatim>\<open>KeyboardInterrupt\<close>, is not wrapped. And the handler
  calls \<^verbatim>\<open>logger.error\<close> before it raises the wrapped exception, so when that call
  raises, what leaves the method is the logger's exception and not the wrapped original.
\<close>

theorem unwrapped_propagation:
  "generate_summary
     \<lparr> logger_info = (\<lambda>m. Some (Raised False ''interrupted'')), logger_error = (\<lambda>m. None) \<rparr> []
     = Inl (Raised False ''interrupted'')
   \<and> generate_summary
     \<lparr> logger_info = (\<lambda>m. Some (Raised False ''interrupted'')), logger_error = (\<lambda>m. None) \<rparr> []
     \<noteq> Inl (Exception ''Failed to generate summary: interrupted'')
   \<and> generate_summary
     \<lparr> logger_info = (\<lambda>m. Some (Raised True ''boom'')),
       logger_error = (\<lambda>m. Some (Raised True ''log failed'')) \<rparr> []
     = Inl (Raised True ''log failed'')
   \<and> generate_summary
     \<lparr> logger_info = (\<lambda>m. Some (Raised True ''boom'')),
       logger_error = (\<lambda>m. Some (Raised True ''log failed'')) \<rparr> []
     \<noteq> Inl (Exception ''Failed to generate summary: boom'')"
  by (simp add: generate_summary_def summary_try_def Exception_def)

end
